theory Spec2Isabelle
  imports Complex_Main "HOL-Library.AList"
begin

section \<open>JavaScript numbers\<close>

text \<open>
  Prices, sizes, quantities and margins are JavaScript numbers. Where the code only adds,
  multiplies, divides under a guard and compares them, they are modelled as \<open>real\<close>: the
  arithmetic is exact, so rounding and overflow of IEEE doubles are outside the model.
  Timestamps and update ids are integral numbers and are modelled as \<open>int\<close>.

  \<open>roundDownToStep\<close> tests \<open>Number.isFinite\<close>, so the sizing code is modelled on
  \<open>jsnum\<close>, which adds the three non-finite values. Finite values compute exactly;
  \<open>Infinity\<close>, \<open>-Infinity\<close> and \<open>NaN\<close> follow the IEEE rules of the JavaScript operators.
  There is no negative zero: \<open>x / 0\<close> takes the sign of \<open>x\<close> alone.
\<close>

datatype jsnum = Fin real | PInf | NInf | NaN

definition isFinite :: "jsnum \<Rightarrow> bool" where
  "isFinite x = (case x of Fin r \<Rightarrow> True | PInf \<Rightarrow> False | NInf \<Rightarrow> False | NaN \<Rightarrow> False)"

text \<open>\<open>x > y\<close>; every comparison with \<open>NaN\<close> is false.\<close>

fun js_gt :: "jsnum \<Rightarrow> jsnum \<Rightarrow> bool" where
  "js_gt (Fin x) (Fin y) = (x > y)"
| "js_gt (Fin x) NInf = True"
| "js_gt PInf (Fin y) = True"
| "js_gt PInf NInf = True"
| "js_gt x y = False"

definition js_ge :: "jsnum \<Rightarrow> jsnum \<Rightarrow> bool" where
  "js_ge x y = (js_gt x y \<or> (x = y \<and> x \<noteq> NaN))"

definition js_le :: "jsnum \<Rightarrow> jsnum \<Rightarrow> bool" where
  "js_le x y = js_ge y x"

fun js_sign :: "jsnum \<Rightarrow> real" where
  "js_sign (Fin x) = sgn x"
| "js_sign PInf = 1"
| "js_sign NInf = - 1"
| "js_sign NaN = 0"

definition inf_of_sign :: "real \<Rightarrow> jsnum" where
  "inf_of_sign s = (if s > 0 then PInf else if s < 0 then NInf else NaN)"

text \<open>\<open>x * y\<close>: \<open>Infinity * 0\<close> is \<open>NaN\<close>, otherwise an infinite factor gives an infinity
  of the product's sign.\<close>

fun js_mul :: "jsnum \<Rightarrow> jsnum \<Rightarrow> jsnum" where
  "js_mul (Fin x) (Fin y) = Fin (x * y)"
| "js_mul NaN y = NaN"
| "js_mul x NaN = NaN"
| "js_mul x y = inf_of_sign (js_sign x * js_sign y)"

text \<open>\<open>x / y\<close>: a finite value over zero is an infinity (\<open>0 / 0\<close> is \<open>NaN\<close>), a finite value
  over an infinity is zero, an infinity over an infinity is \<open>NaN\<close>.\<close>

fun js_div :: "jsnum \<Rightarrow> jsnum \<Rightarrow> jsnum" where
  "js_div NaN y = NaN"
| "js_div x NaN = NaN"
| "js_div (Fin x) (Fin y) = (if y = 0 then inf_of_sign (sgn x) else Fin (x / y))"
| "js_div (Fin x) y = Fin 0"
| "js_div x (Fin y) = inf_of_sign (js_sign x * (if y < 0 then - 1 else 1))"
| "js_div x y = NaN"

text \<open>\<open>Math.floor\<close>.\<close>

fun js_floor :: "jsnum \<Rightarrow> jsnum" where
  "js_floor (Fin x) = Fin (of_int \<lfloor>x\<rfloor>)"
| "js_floor x = x"

section \<open>Order sizing from a margin budget\<close>

datatype BlockedReason = min_notional

record SizingComputation =
  markPrice :: jsnum
  startingMarginUsdt :: jsnum
  currentMarginBudgetUsdt :: jsnum
  rampMult :: jsnum
  leverage :: jsnum
  notionalUsdt :: jsnum
  qty :: jsnum
  qtyRounded :: jsnum
  minNotionalOk :: bool
  marginRequiredUsdt :: jsnum
  blockedReason :: "BlockedReason option"

definition roundDownToStep :: "jsnum \<Rightarrow> jsnum \<Rightarrow> jsnum" where
  "roundDownToStep rawQty stepSize =
     (if \<not> isFinite rawQty \<or> js_le rawQty (Fin 0) then Fin 0
      else if \<not> isFinite stepSize \<or> js_le stepSize (Fin 0) then Fin 0
      else let units = js_floor (js_div rawQty stepSize) in js_mul units stepSize)"

text \<open>The input object of \<open>computeSizingFromBudget\<close> has no named type in the source; its
  six fields are the six arguments, in the order the source lists them. The locals
  \<open>notional\<close>, \<open>rawQty\<close>, \<open>rounded\<close>, \<open>notionalOk\<close> and \<open>blocked\<close> are the source's
  \<open>notionalUsdt\<close>, \<open>qty\<close>, \<open>qtyRounded\<close>, \<open>minNotionalOk\<close> and \<open>blockedReason\<close>, whose names
  are fields of the result here.\<close>

definition computeSizingFromBudget ::
  "jsnum \<Rightarrow> jsnum \<Rightarrow> jsnum \<Rightarrow> jsnum \<Rightarrow> jsnum \<Rightarrow> jsnum \<Rightarrow> SizingComputation" where
  "computeSizingFromBudget in_startingMarginUsdt in_currentMarginBudgetUsdt in_leverage
       in_markPrice in_stepSize in_minNotionalUsdt =
     (let notional = js_mul in_currentMarginBudgetUsdt in_leverage;
          rawQty = (if js_gt in_markPrice (Fin 0) then js_div notional in_markPrice else Fin 0);
          rounded = roundDownToStep rawQty in_stepSize;
          computedNotional = js_mul rounded in_markPrice;
          notionalOk = js_ge computedNotional in_minNotionalUsdt;
          blocked = (if js_le rounded (Fin 0) \<or> \<not> notionalOk then Some min_notional else None)
      in \<lparr> markPrice = in_markPrice,
           startingMarginUsdt = in_startingMarginUsdt,
           currentMarginBudgetUsdt = in_currentMarginBudgetUsdt,
           rampMult = (if js_gt in_startingMarginUsdt (Fin 0)
                       then js_div in_currentMarginBudgetUsdt in_startingMarginUsdt else Fin 0),
           leverage = in_leverage,
           notionalUsdt = computedNotional,
           qty = rawQty,
           qtyRounded = rounded,
           minNotionalOk = notionalOk,
           marginRequiredUsdt = (if js_gt in_leverage (Fin 0)
                                 then js_div computedNotional in_leverage else computedNotional),
           blockedReason = blocked \<rparr>)"

text \<open>The spec's sizing formulas, in its own words and on exact numbers, for comparison
  with the code: \<open>qtyRounded = floor(qty / stepSize) * stepSize\<close> with
  \<open>qty = budget * leverage / markPrice\<close>; a block when \<open>qtyRounded \<le> 0\<close> or
  \<open>computedNotional < minNotional\<close>; \<open>marginRequired = computedNotional / max(leverage, 1)\<close>.\<close>

definition spec_qtyRounded :: "real \<Rightarrow> real \<Rightarrow> real \<Rightarrow> real \<Rightarrow> real" where
  "spec_qtyRounded budget lev mark step = of_int \<lfloor>(budget * lev / mark) / step\<rfloor> * step"

definition spec_min_notional_block :: "real \<Rightarrow> real \<Rightarrow> real \<Rightarrow> real \<Rightarrow> real \<Rightarrow> bool" where
  "spec_min_notional_block budget lev mark step minNotional =
     (spec_qtyRounded budget lev mark step \<le> 0
      \<or> spec_qtyRounded budget lev mark step * mark < minNotional)"

definition spec_marginRequired :: "real \<Rightarrow> real \<Rightarrow> real" where
  "spec_marginRequired computedNotional lev = computedNotional / max lev 1"

section \<open>The sizing ramp\<close>

record SizingRampConfig =
  startingMarginUsdt :: real
  minMarginUsdt :: real
  rampStepPct :: real
  rampDecayPct :: real
  rampMaxMult :: real

record SizingRampState =
  currentMarginBudgetUsdt :: real
  rampMult :: real
  successCount :: nat
  failCount :: nat

text \<open>The pair \<open>{min, max}\<close> that \<open>computeRampBounds\<close> returns.\<close>

record RampBounds =
  bound_min :: real
  bound_max :: real

definition computeRampBounds :: "SizingRampConfig \<Rightarrow> RampBounds" where
  "computeRampBounds cfg =
     (let lo = max 0 (minMarginUsdt cfg);
          hi = max lo (SizingRampConfig.startingMarginUsdt cfg * max 1 (rampMaxMult cfg))
      in \<lparr> bound_min = lo, bound_max = hi \<rparr>)"

text \<open>The class \<open>SizingRamp\<close>: its two private fields. Methods take the object and return
  the updated object.\<close>

record SizingRamp =
  config :: SizingRampConfig
  state :: SizingRampState

definition SizingRamp_new :: "SizingRampConfig \<Rightarrow> SizingRamp" where
  "SizingRamp_new cfg =
     \<lparr> config = cfg,
       state = \<lparr> SizingRampState.currentMarginBudgetUsdt =
                   max 0 (SizingRampConfig.startingMarginUsdt cfg),
                 SizingRampState.rampMult = 1, successCount = 0, failCount = 0 \<rparr> \<rparr>"

definition getState :: "SizingRamp \<Rightarrow> SizingRampState" where
  "getState r = state r"

definition getCurrentMarginBudgetUsdt :: "SizingRamp \<Rightarrow> real" where
  "getCurrentMarginBudgetUsdt r = SizingRampState.currentMarginBudgetUsdt (state r)"

definition clamp :: "SizingRamp \<Rightarrow> real \<Rightarrow> real" where
  "clamp r v =
     (let bounds = computeRampBounds (config r)
      in max (bound_min bounds) (min (bound_max bounds) v))"

text \<open>\<open>onTradeClosed\<close> returns a copy of the new state, which is \<open>getState\<close> of the
  object returned here.\<close>

definition onTradeClosed :: "real \<Rightarrow> SizingRamp \<Rightarrow> SizingRamp" where
  "onTradeClosed realizedPnl r =
     (let budget = SizingRampState.currentMarginBudgetUsdt (state r);
          s1 = (if realizedPnl > 0
                then (state r)
                  \<lparr> successCount := successCount (state r) + 1,
                    SizingRampState.currentMarginBudgetUsdt :=
                      clamp r (budget * (1 + rampStepPct (config r) / 100)) \<rparr>
                else (state r)
                  \<lparr> failCount := failCount (state r) + 1,
                    SizingRampState.currentMarginBudgetUsdt :=
                      clamp r (budget * (1 - rampDecayPct (config r) / 100)) \<rparr>);
          s2 = s1 \<lparr> SizingRampState.rampMult :=
                     (if SizingRampConfig.startingMarginUsdt (config r) > 0
                      then SizingRampState.currentMarginBudgetUsdt s1
                             / SizingRampConfig.startingMarginUsdt (config r)
                      else 0) \<rparr>
      in r \<lparr> state := s2 \<rparr>)"

text \<open>A finite sequence of \<open>onTradeClosed\<close> calls, one per realized P&L, oldest first.\<close>

fun closeTrades :: "real list \<Rightarrow> SizingRamp \<Rightarrow> SizingRamp" where
  "closeTrades [] r = r"
| "closeTrades (pnl # pnls) r = closeTrades pnls (onTradeClosed pnl r)"

section \<open>The freeze assessment\<close>

text \<open>
  \<open>ExecQualityLevel\<close> is a union of string literals declared outside the source files.
  At run time a level is a string, and the function compares it with two literals, so the
  model takes any string: every level the union can hold is covered.
\<close>

datatype FreezeReason = exec_quality_unknown | exec_quality_bad

record FreezeAssessment =
  freezeActive :: bool
  reason :: "FreezeReason option"

definition assessFreezeFromExecQuality :: "string \<Rightarrow> FreezeAssessment" where
  "assessFreezeFromExecQuality quality =
     (if quality = ''UNKNOWN'' then \<lparr> freezeActive = False, reason = Some exec_quality_unknown \<rparr>
      else if quality = ''BAD'' then \<lparr> freezeActive = True, reason = Some exec_quality_bad \<rparr>
      else \<lparr> freezeActive = False, reason = None \<rparr>)"

section \<open>Open interest\<close>

text \<open>A history entry \<open>{value, timestamp}\<close> of the monitor; \<open>oi_value\<close> is its field
  \<open>value\<close>. The monitor appends an entry with the clock reading of the call, so the oldest
  entry is the first.\<close>

record OiRecord =
  oi_value :: real
  timestamp :: int

datatype OiSource = Real | Mock

record OpenInterestMetrics =
  openInterest :: real
  oiChangeAbs :: real
  oiChangePct :: real
  oiDeltaWindow :: real
  lastUpdated :: int
  source :: OiSource

record OpenInterestMonitor =
  symbol :: string
  currentOI :: real
  previousOI :: real
  baselineOI :: real
  oiHistory :: "OiRecord list"
  lastFetchTime :: int
  lastBaselineUpdate :: int

definition WINDOW_MS :: int where
  "WINDOW_MS = 60000"

definition OpenInterestMonitor_new :: "string \<Rightarrow> OpenInterestMonitor" where
  "OpenInterestMonitor_new name =
     \<lparr> symbol = name, currentOI = 0, previousOI = 0, baselineOI = 0, oiHistory = [],
       lastFetchTime = 0, lastBaselineUpdate = 0 \<rparr>"

text \<open>\<open>buildMetrics\<close> reads the clock once; \<open>now\<close> is that reading. \<open>Array.find\<close> returns
  the first entry, in array order, that passes the test.\<close>

definition buildMetrics :: "int \<Rightarrow> OiSource \<Rightarrow> OpenInterestMonitor \<Rightarrow> OpenInterestMetrics" where
  "buildMetrics now src m =
     (let windowStart = now - WINDOW_MS;
          baselineItem =
            (case find (\<lambda>h. OiRecord.timestamp h \<ge> windowStart) (oiHistory m) of
               Some h \<Rightarrow> Some h
             | None \<Rightarrow> (case oiHistory m of [] \<Rightarrow> None | h # hs \<Rightarrow> Some h));
          baseline = (case baselineItem of Some h \<Rightarrow> oi_value h | None \<Rightarrow> currentOI m);
          deltaWindow = currentOI m - baseline;
          changePct = (if baseline > 0 then (deltaWindow / baseline) * 100 else 0)
      in \<lparr> openInterest = currentOI m,
           oiChangeAbs = deltaWindow,
           oiChangePct = changePct,
           oiDeltaWindow = deltaWindow,
           lastUpdated = (if lastFetchTime m \<noteq> 0 then lastFetchTime m else now),
           source = src \<rparr>)"

definition getMetrics :: "int \<Rightarrow> OpenInterestMonitor \<Rightarrow> OpenInterestMetrics" where
  "getMetrics now m = buildMetrics now Real m"

text \<open>\<open>update\<close>, the synchronous entry that records a sample. Its test
  \<open>Number.isFinite(openInterest)\<close> holds of every \<open>real\<close>; the listeners it notifies are
  not part of the state modelled here.\<close>

definition OpenInterestMonitor_update ::
  "int \<Rightarrow> real \<Rightarrow> OpenInterestMonitor \<Rightarrow> OpenInterestMonitor" where
  "OpenInterestMonitor_update now oi m =
     (if oi < 0 then m
      else m \<lparr> baselineOI := (if currentOI m = 0 then oi else baselineOI m),
               previousOI := (if currentOI m > 0 then currentOI m else oi),
               currentOI := oi,
               oiHistory := oiHistory m @ [\<lparr> oi_value = oi, timestamp = now \<rparr>],
               lastFetchTime := now \<rparr>)"

text \<open>The spec's baseline, in its own words: the oldest history sample with timestamp
  \<open>\<ge> now - 60 s\<close>, if there is one.\<close>

definition spec_baseline :: "int \<Rightarrow> OiRecord list \<Rightarrow> OiRecord option" where
  "spec_baseline now history = find (\<lambda>h. OiRecord.timestamp h \<ge> now - 60000) history"

section \<open>The metrics object of the composite calculator\<close>

text \<open>The object that \<open>LegacyCalculator.computeMetrics\<close> returns. It stands ahead of the
  records of the trades and of the calculator, which share the field names \<open>price\<close>,
  \<open>cvdSession\<close>, \<open>totalVolume\<close> and \<open>totalNotional\<close> with it: written without a
  qualifier, these four names are the fields of the later records.\<close>

record LegacyMetrics =
  price :: real
  obiWeighted :: real
  obiDeep :: real
  obiDivergence :: real
  delta1s :: real
  delta5s :: real
  deltaZ :: real
  cvdSession :: real
  cvdSlope :: real
  vwap :: real
  totalVolume :: real
  totalNotional :: real
  tradeCount :: nat

section \<open>Trades\<close>

text \<open>\<open>TradeEvent\<close> and \<open>AggressiveSide\<close> are declared by the time-and-sales module, which
  is not among the source files; the fields are the ones the calculators and the tests
  use. \<open>LegacyTrade\<close> declares the same four fields.\<close>

datatype AggressiveSide = buy | sell

record TradeEvent =
  price :: real
  quantity :: real
  side :: AggressiveSide
  timestamp :: int

type_synonym LegacyTrade = TradeEvent

record StoredCvdTrade = TradeEvent +
  arrival :: int

datatype js_error = TypeError

section \<open>The order book\<close>

text \<open>
  The module \<open>OrderbookManager\<close> is not among the source files: only its tests and its
  callers are. A JavaScript \<open>Map\<close> from price to size is an association list in insertion
  order with \<open>map_of\<close> for \<open>get\<close>, \<open>AList.update\<close> for \<open>set\<close> and \<open>AList.delete\<close> for
  \<open>delete\<close>, which is also how \<open>LegacyCalculator\<close> reads it (\<open>Map<number, number>\<close>).
\<close>

text \<open>Modelled from the spec: the type \<open>OrderbookState\<close> of the missing module
  \<open>OrderbookManager\<close>: two price-to-size maps and \<open>lastUpdateId\<close>.\<close>

record OrderbookState =
  bids :: "(real \<times> real) list"
  asks :: "(real \<times> real) list"
  lastUpdateId :: int

text \<open>Modelled from the spec: the snapshot \<open>{lastUpdateId, bids[], asks[]}\<close> (the type
  \<open>DepthCache\<close> of the missing module).\<close>

record DepthCache =
  snapshot_lastUpdateId :: int
  snapshot_bids :: "(real \<times> real) list"
  snapshot_asks :: "(real \<times> real) list"

text \<open>Modelled from the spec: the diff \<open>{U, u, b[], a[], eventTimeMs}\<close>, with the
  \<open>receiptTimeMs\<close> the tests pass; \<open>U\<close> is the first update id of the batch and \<open>u\<close> the
  last. The one-letter fields carry the prefix \<open>diff_\<close>.\<close>

record DepthUpdate =
  diff_U :: int
  diff_u :: int
  diff_b :: "(real \<times> real) list"
  diff_a :: "(real \<times> real) list"
  eventTimeMs :: int
  receiptTimeMs :: int

text \<open>Modelled from the spec: the result object of the missing \<open>applyDepthUpdate\<close>; a flag
  the spec's table leaves out of a result is false.\<close>

record ApplyResult =
  ok :: bool
  applied :: bool
  dropped :: bool
  gapDetected :: bool

text \<open>Modelled from the spec: the missing \<open>createOrderbookState\<close>; the book is created
  empty and \<open>lastUpdateId\<close> is \<open>-1\<close> before the first snapshot.\<close>

definition createOrderbookState :: OrderbookState where
  "createOrderbookState = \<lparr> bids = [], asks = [], lastUpdateId = - 1 \<rparr>"

text \<open>Modelled from the spec: applying one \<open>(price, size)\<close> pair, which the missing module
  does inside \<open>applyDepthUpdate\<close>: if \<open>size == 0\<close> remove the level, else upsert.\<close>

definition applyLevel :: "(real \<times> real) list \<Rightarrow> real \<times> real \<Rightarrow> (real \<times> real) list" where
  "applyLevel levels ps =
     (if snd ps = 0 then AList.delete (fst ps) levels else AList.update (fst ps) (snd ps) levels)"

text \<open>Modelled from the spec: the missing \<open>applySnapshot\<close>; it replaces both sides and sets
  \<open>lastUpdateId\<close> to the snapshot's id.\<close>

definition applySnapshot :: "OrderbookState \<Rightarrow> DepthCache \<Rightarrow> OrderbookState" where
  "applySnapshot ob snap =
     \<lparr> bids = foldl applyLevel [] (snapshot_bids snap),
       asks = foldl applyLevel [] (snapshot_asks snap),
       lastUpdateId = snapshot_lastUpdateId snap \<rparr>"

text \<open>Modelled from the spec: the missing \<open>applyDepthUpdate\<close>, the three rows of the
  sequence-rule table in the order the spec lists them: \<open>u \<le> lastUpdateId\<close> is discarded;
  \<open>U \<le> lastUpdateId + 1 \<le> u\<close> applies all pairs of \<open>b\<close> and \<open>a\<close> and sets
  \<open>lastUpdateId = u\<close>; \<open>U > lastUpdateId + 1\<close> flags a gap. It returns the book with the
  result.\<close>

definition applyDepthUpdate :: "OrderbookState \<Rightarrow> DepthUpdate \<Rightarrow> OrderbookState \<times> ApplyResult" where
  "applyDepthUpdate ob d =
     (if diff_u d \<le> lastUpdateId ob
      then (ob, \<lparr> ok = True, applied = False, dropped = True, gapDetected = False \<rparr>)
      else if diff_U d \<le> lastUpdateId ob + 1 \<and> lastUpdateId ob + 1 \<le> diff_u d
      then (ob \<lparr> bids := foldl applyLevel (bids ob) (diff_b d),
                 asks := foldl applyLevel (asks ob) (diff_a d),
                 lastUpdateId := diff_u d \<rparr>,
            \<lparr> ok = True, applied = True, dropped = False, gapDetected = False \<rparr>)
      else (ob, \<lparr> ok = False, applied = False, dropped = False, gapDetected = True \<rparr>))"

text \<open>What a list of \<open>(price, size)\<close> pairs says about one price: the last pair for that
  price decides, a zero size removes the level, and a price the list does not name keeps
  its old entry.\<close>

definition levelAfter :: "(real \<times> real) list \<Rightarrow> real option \<Rightarrow> real \<Rightarrow> real option" where
  "levelAfter pairs old p =
     (case map_of (rev pairs) p of
        None \<Rightarrow> old
      | Some s \<Rightarrow> (if s = 0 then None else Some s))"

text \<open>Modelled from the spec: the missing \<open>bestBid\<close>, the largest bid price with
  \<open>size > 0\<close>, and nothing for a side without such a level.\<close>

definition bestBid :: "OrderbookState \<Rightarrow> real option" where
  "bestBid ob =
     (case map fst (filter (\<lambda>e. snd e > 0) (bids ob)) of
        [] \<Rightarrow> None
      | p # ps \<Rightarrow> Some (foldl max p ps))"

text \<open>Modelled from the spec: the missing \<open>bestAsk\<close>, the smallest ask price with
  \<open>size > 0\<close>, and nothing for a side without such a level.\<close>

definition bestAsk :: "OrderbookState \<Rightarrow> real option" where
  "bestAsk ob =
     (case map fst (filter (\<lambda>e. snd e > 0) (asks ob)) of
        [] \<Rightarrow> None
      | p # ps \<Rightarrow> Some (foldl min p ps))"

section \<open>The composite calculator\<close>

definition EPSILON :: real where
  "EPSILON = 1 / 10 ^ 12"

record LegacyCalculator =
  trades :: "LegacyTrade list"
  deltaHistory :: "real list"
  cvdHistory :: "real list"
  cvdSession :: real
  totalVolume :: real
  totalNotional :: real
  volatilityHistory :: "real list"
  volumeHistory :: "real list"
  lastMidPrice :: real

text \<open>The constructor without a symbol: no open-interest monitor is attached.\<close>

definition LegacyCalculator_new :: LegacyCalculator where
  "LegacyCalculator_new =
     \<lparr> trades = [], deltaHistory = [], cvdHistory = [], cvdSession = 0, totalVolume = 0,
       totalNotional = 0, volatilityHistory = [], volumeHistory = [], lastMidPrice = 0 \<rparr>"

text \<open>\<open>push\<close> followed by one \<open>shift\<close> when the array is longer than the limit.\<close>

definition pushLimited :: "nat \<Rightarrow> real \<Rightarrow> real list \<Rightarrow> real list" where
  "pushLimited limit x xs = (let ys = xs @ [x] in if length ys > limit then tl ys else ys)"

text \<open>\<open>LegacyCalculator.addTrade\<close>. The \<open>while\<close> loop shifts trades off the front while the
  first one is older than the cutoff, which is \<open>dropWhile\<close>. \<open>netOneSec\<close> is the local
  \<open>delta1s\<close>; the locals \<open>delta5s\<close> and \<open>count1s\<close> are computed and never read, and are left
  out.\<close>

definition LegacyCalculator_addTrade :: "LegacyTrade \<Rightarrow> LegacyCalculator \<Rightarrow> LegacyCalculator" where
  "LegacyCalculator_addTrade trade c =
     (let now = timestamp trade;
          pushed = LegacyCalculator.trades c @ [trade];
          volume = totalVolume c + quantity trade;
          notional = totalNotional c + quantity trade * price trade;
          session = cvdSession c + (if side trade = buy then quantity trade else - quantity trade);
          cutoff = now - 10000;
          kept = dropWhile (\<lambda>t. timestamp t < cutoff) pushed;
          oneSecCutoff = now - 1000;
          netOneSec = foldl (\<lambda>acc t. if timestamp t \<ge> oneSecCutoff
                                      then acc + (if side t = buy then quantity t else - quantity t)
                                      else acc) 0 kept
      in c \<lparr> LegacyCalculator.trades := kept,
             totalVolume := volume,
             totalNotional := notional,
             cvdSession := session,
             deltaHistory := pushLimited 60 netOneSec (deltaHistory c),
             cvdHistory := pushLimited 60 session (cvdHistory c),
             volumeHistory := pushLimited 100 (quantity trade) (volumeHistory c) \<rparr>)"

text \<open>A sequence of \<open>addTrade\<close> calls, oldest first.\<close>

fun LegacyCalculator_addTrades :: "LegacyTrade list \<Rightarrow> LegacyCalculator \<Rightarrow> LegacyCalculator" where
  "LegacyCalculator_addTrades [] c = c"
| "LegacyCalculator_addTrades (trade # rest) c =
     LegacyCalculator_addTrades rest (LegacyCalculator_addTrade trade c)"

text \<open>The helper \<open>calcVolume\<close> of \<open>computeMetrics\<close>: the entries sorted by price (bids
  descending, asks ascending), the sizes of the first \<open>min(depth, length)\<close> of them added
  up.\<close>

definition calcVolume :: "(real \<times> real) list \<Rightarrow> nat \<Rightarrow> bool \<Rightarrow> real" where
  "calcVolume levels depth isAsk =
     (let entries = (if isAsk then sort_key fst levels else sort_key (\<lambda>e. - fst e) levels)
      in sum_list (map snd (take (min depth (length entries)) entries)))"

text \<open>\<open>calculateSlope\<close>: the least-squares slope of the values against their indices
  \<open>0, 1, ...\<close>.\<close>

definition calculateSlope :: "real list \<Rightarrow> real" where
  "calculateSlope ys =
     (let n = length ys
      in if n < 2 then 0
         else (let xs = map real [0 ..< n];
                   sumX = sum_list xs;
                   sumY = sum_list ys;
                   sumXX = sum_list (map (\<lambda>x. x * x) xs);
                   sumXY = sum_list (map (\<lambda>xy. fst xy * snd xy) (zip xs ys));
                   denom = real n * sumXX - sumX * sumX
               in if \<bar>denom\<bar> < EPSILON then 0 else (real n * sumXY - sumX * sumY) / denom))"

text \<open>\<open>LegacyCalculator.computeMetrics\<close>. \<open>now\<close> is the clock, read only when the list of
  trades is empty. Sections A to C compute the three imbalance scalars from the order book
  alone; \<open>bestBid(ob) ?? 0\<close> replaces a missing side by 0.\<close>

definition LegacyCalculator_computeMetrics ::
  "int \<Rightarrow> LegacyCalculator \<Rightarrow> OrderbookState \<Rightarrow> LegacyMetrics" where
  "LegacyCalculator_computeMetrics now c ob =
     (let bidVol10 = calcVolume (bids ob) 10 False;
          askVol10 = calcVolume (asks ob) 10 True;
          rawObiWeighted = bidVol10 - askVol10;
          denomWeighted = bidVol10 + askVol10;
          weighted = (if denomWeighted > EPSILON then rawObiWeighted / denomWeighted else 0);
          bidVol50 = calcVolume (bids ob) 50 False;
          askVol50 = calcVolume (asks ob) 50 True;
          rawObiDeep = bidVol50 - askVol50;
          denomDeep = bidVol50 + askVol50;
          deep = (if denomDeep > EPSILON then rawObiDeep / denomDeep else 0);
          divergence = weighted - deep;
          ts = LegacyCalculator.trades c;
          refTime = (if ts \<noteq> [] then timestamp (last ts) else now);
          d1 = foldl (\<lambda>acc t. if timestamp t \<ge> refTime - 1000
                               then acc + (if side t = buy then quantity t else - quantity t)
                               else acc) 0 ts;
          d5 = foldl (\<lambda>acc t. if timestamp t \<ge> refTime - 5000
                               then acc + (if side t = buy then quantity t else - quantity t)
                               else acc) 0 ts;
          history = deltaHistory c;
          z = (if length history \<ge> 5
               then (let mean = sum_list history / real (length history);
                         variance = sum_list (map (\<lambda>v. (v - mean) ^ 2) history)
                                      / real (length history);
                         std = sqrt variance
                     in if std > EPSILON then (d1 - mean) / std else 0)
               else 0);
          slope = calculateSlope (cvdHistory c);
          average = (if LegacyCalculator.totalVolume c > EPSILON
                     then LegacyCalculator.totalNotional c / LegacyCalculator.totalVolume c else 0);
          bestBidPrice = (case bestBid ob of Some p \<Rightarrow> p | None \<Rightarrow> 0);
          bestAskPrice = (case bestAsk ob of Some p \<Rightarrow> p | None \<Rightarrow> 0);
          midPrice = (bestBidPrice + bestAskPrice) / 2
      in \<lparr> LegacyMetrics.price = midPrice,
           obiWeighted = weighted,
           obiDeep = deep,
           obiDivergence = divergence,
           delta1s = d1,
           delta5s = d5,
           deltaZ = z,
           LegacyMetrics.cvdSession = LegacyCalculator.cvdSession c,
           cvdSlope = slope,
           vwap = average,
           LegacyMetrics.totalVolume = LegacyCalculator.totalVolume c,
           LegacyMetrics.totalNotional = LegacyCalculator.totalNotional c,
           tradeCount = length ts \<rparr>)"

text \<open>A book whose sizes are all non-negative, as the sizes of an exchange's levels
  are.\<close>

definition sizesNonNegative :: "OrderbookState \<Rightarrow> bool" where
  "sizesNonNegative ob = (list_all (\<lambda>e. snd e \<ge> 0) (bids ob) \<and> list_all (\<lambda>e. snd e \<ge> 0) (asks ob))"

section \<open>Multi-timeframe CVD\<close>

text \<open>
  The two private \<open>Map\<close>s of \<open>CvdCalculator\<close> are association lists in insertion order:
  \<open>Map.get\<close> is \<open>map_of\<close>, \<open>Map.set\<close> is \<open>AList.update\<close> (an existing key keeps its place).
  \<open>this.trades.get(tf)!\<close> is \<open>undefined\<close> for a missing key, and using it raises a
  \<open>TypeError\<close>.
\<close>

record CvdCalculator =
  windows :: "(string \<times> int) list"
  trades :: "(string \<times> StoredCvdTrade list) list"

record CvdMetrics =
  timeframe :: string
  cvd :: real
  delta :: real

text \<open>The constructor walks \<open>Object.entries(timeframes)\<close>.\<close>

definition CvdCalculator_new :: "(string \<times> int) list \<Rightarrow> CvdCalculator" where
  "CvdCalculator_new timeframes =
     foldl (\<lambda>c (tf, ms). \<lparr> windows = AList.update tf ms (windows c),
                            trades = AList.update tf [] (trades c) \<rparr>)
       \<lparr> windows = [], trades = [] \<rparr> timeframes"

definition signedQty :: "TradeEvent \<Rightarrow> real" where
  "signedQty event = (if side event = buy then quantity event else - quantity event)"

text \<open>The body of the loop of \<open>addTrade\<close> for one timeframe: push the signed trade, then
  keep the trades whose timestamp is not before the cutoff.\<close>

definition pushAndFilter :: "TradeEvent \<Rightarrow> int \<Rightarrow> int \<Rightarrow> StoredCvdTrade list \<Rightarrow> StoredCvdTrade list" where
  "pushAndFilter event arrivalMs ms arr =
     (let pushed = arr @ [\<lparr> price = price event, quantity = signedQty event, side = side event,
                            timestamp = timestamp event, arrival = arrivalMs \<rparr>];
          cutoff = timestamp event - ms
      in filter (\<lambda>t. timestamp t \<ge> cutoff) pushed)"

fun addTrade_loop ::
  "TradeEvent \<Rightarrow> int \<Rightarrow> (string \<times> int) list \<Rightarrow> (string \<times> StoredCvdTrade list) list
     \<Rightarrow> js_error + (string \<times> StoredCvdTrade list) list" where
  "addTrade_loop event arrivalMs [] tr = Inr tr"
| "addTrade_loop event arrivalMs ((tf, ms) # ws) tr =
     (case map_of tr tf of
        None \<Rightarrow> Inl TypeError
      | Some arr \<Rightarrow>
          addTrade_loop event arrivalMs ws (AList.update tf (pushAndFilter event arrivalMs ms arr) tr))"

text \<open>\<open>addTrade\<close>; \<open>arrivalMs\<close> is its reading of the clock.\<close>

definition addTrade :: "int \<Rightarrow> TradeEvent \<Rightarrow> CvdCalculator \<Rightarrow> js_error + CvdCalculator" where
  "addTrade arrivalMs event c =
     (case addTrade_loop event arrivalMs (windows c) (trades c) of
        Inl e \<Rightarrow> Inl e
      | Inr tr \<Rightarrow> Inr (c \<lparr> trades := tr \<rparr>))"

fun computeMetrics_loop ::
  "(string \<times> int) list \<Rightarrow> (string \<times> StoredCvdTrade list) list \<Rightarrow> js_error + CvdMetrics list" where
  "computeMetrics_loop [] tr = Inr []"
| "computeMetrics_loop ((tf, ms) # ws) tr =
     (case map_of tr tf of
        None \<Rightarrow> Inl TypeError
      | Some arr \<Rightarrow>
          (let total = foldl (\<lambda>acc t. acc + quantity t) 0 arr;
               net = total
           in case computeMetrics_loop ws tr of
                Inl e \<Rightarrow> Inl e
              | Inr results \<Rightarrow> Inr (\<lparr> timeframe = tf, cvd = total, delta = net \<rparr> # results)))"

definition computeMetrics :: "CvdCalculator \<Rightarrow> js_error + CvdMetrics list" where
  "computeMetrics c = computeMetrics_loop (windows c) (trades c)"

text \<open>The list stored for a timeframe, as \<open>getTradeCounts\<close> reads it
  (\<open>this.trades.get(tf) ?? []\<close>).\<close>

definition storedTrades :: "string \<Rightarrow> CvdCalculator \<Rightarrow> StoredCvdTrade list" where
  "storedTrades tf c = (case map_of (trades c) tf of None \<Rightarrow> [] | Some arr \<Rightarrow> arr)"

text \<open>A sequence of \<open>addTrade\<close> calls, oldest first, each with its clock reading; the
  first error ends it.\<close>

fun addTrades :: "(int \<times> TradeEvent) list \<Rightarrow> CvdCalculator \<Rightarrow> js_error + CvdCalculator" where
  "addTrades [] c = Inr c"
| "addTrades ((arrivalMs, event) # rest) c =
     (case addTrade arrivalMs event c of
        Inl e \<Rightarrow> Inl e
      | Inr c' \<Rightarrow> addTrades rest c')"

text \<open>The spec's window sum, in its own words: the signed quantities of the trades with
  \<open>timestampMs \<ge> refTime - durationMs\<close>. The reference time is the timestamp of the last
  trade added or, as the spec's concurrency section has it, the largest timestamp seen.\<close>

definition spec_cvd :: "int \<Rightarrow> int \<Rightarrow> TradeEvent list \<Rightarrow> real" where
  "spec_cvd refTime durationMs events =
     sum_list (map signedQty (filter (\<lambda>e. timestamp e \<ge> refTime - durationMs) events))"

definition refTime_last :: "TradeEvent list \<Rightarrow> int" where
  "refTime_last events = (case rev events of [] \<Rightarrow> 0 | e # es \<Rightarrow> timestamp e)"

definition refTime_max :: "TradeEvent list \<Rightarrow> int" where
  "refTime_max events = (case events of [] \<Rightarrow> 0 | e # es \<Rightarrow> foldl max (timestamp e) (map timestamp es))"

text \<open>The trade as \<open>addTrade\<close> stores it, the list one timeframe holds after a sequence of
  calls, and the metrics read after a sequence of calls.\<close>

definition stored :: "int \<times> TradeEvent \<Rightarrow> StoredCvdTrade" where
  "stored ne = (case ne of (n, e) \<Rightarrow> \<lparr> price = price e, quantity = signedQty e, side = side e,
                            timestamp = timestamp e, arrival = n \<rparr>)"

definition windowAfter :: "int \<Rightarrow> (int \<times> TradeEvent) list \<Rightarrow> StoredCvdTrade list \<Rightarrow> StoredCvdTrade list" where
  "windowAfter ms evs arr = foldl (\<lambda>acc (arrivalMs, event). pushAndFilter event arrivalMs ms acc) arr evs"

definition metricsAfter :: "(int \<times> TradeEvent) list \<Rightarrow> CvdCalculator \<Rightarrow> js_error + CvdMetrics list" where
  "metricsAfter evs c = (case addTrades evs c of Inl e \<Rightarrow> Inl e | Inr c' \<Rightarrow> computeMetrics c')"

text \<open>The invariant of the two maps: the timeframes are distinct keys, and each has its
  list of trades.\<close>

definition cvd_inv :: "CvdCalculator \<Rightarrow> (int \<Rightarrow> StoredCvdTrade list) \<Rightarrow> bool" where
  "cvd_inv c g = (distinct (map fst (windows c))
      \<and> list_all (\<lambda>(tf, ms). map_of (trades c) tf = Some (g ms)) (windows c))"

section \<open>Facts about the number model\<close>

lemma js_le_Fin [simp]: "js_le (Fin x) (Fin y) = (x \<le> y)"
  by (auto simp: js_le_def js_ge_def)

lemma js_ge_Fin [simp]: "js_ge (Fin x) (Fin y) = (x \<ge> y)"
  by (auto simp: js_ge_def)

lemma isFinite_simps [simp]:
  "isFinite (Fin x)" "\<not> isFinite PInf" "\<not> isFinite NInf" "\<not> isFinite NaN"
  by (simp_all add: isFinite_def)

lemma roundDownToStep_Fin:
  "roundDownToStep (Fin q) (Fin st) =
     Fin (if q \<le> 0 \<or> st \<le> 0 then 0 else of_int \<lfloor>q / st\<rfloor> * st)"
  by (auto simp: roundDownToStep_def Let_def)

section \<open>The sequence rule\<close>

lemma map_of_foldl_applyLevel:
  "map_of (foldl applyLevel levels pairs) p = levelAfter pairs (map_of levels p) p"
proof (induction pairs rule: rev_induct)
  case Nil
  then show ?case by (simp add: levelAfter_def)
next
  case (snoc x pairs)
  then show ?case
    by (auto simp: levelAfter_def applyLevel_def update_conv' delete_conv' split: option.splits)
qed




section \<open>The sizing ramp stays within its bounds\<close>

lemma closeTrades_config: "config (closeTrades pnls r) = config r"
  by (induction pnls arbitrary: r) (simp_all add: onTradeClosed_def Let_def)

lemma clamp_bounds:
  "bound_min (computeRampBounds (config r)) \<le> clamp r v
   \<and> clamp r v \<le> bound_max (computeRampBounds (config r))"
  by (auto simp: clamp_def computeRampBounds_def Let_def)

lemma onTradeClosed_budget:
  "\<exists>v. SizingRampState.currentMarginBudgetUsdt (state (onTradeClosed pnl r)) = clamp r v"
  by (auto simp: onTradeClosed_def Let_def)

lemma onTradeClosed_budget_bounds:
  "max 0 (minMarginUsdt (config r))
     \<le> SizingRampState.currentMarginBudgetUsdt (state (onTradeClosed pnl r))
   \<and> SizingRampState.currentMarginBudgetUsdt (state (onTradeClosed pnl r))
     \<le> max (max 0 (minMarginUsdt (config r)))
          (SizingRampConfig.startingMarginUsdt (config r) * max 1 (rampMaxMult (config r)))"
proof -
  obtain v where v: "SizingRampState.currentMarginBudgetUsdt (state (onTradeClosed pnl r)) = clamp r v"
    using onTradeClosed_budget by blast
  show ?thesis
    using clamp_bounds [of r v] unfolding v by (simp add: computeRampBounds_def Let_def)
qed



section \<open>The per-timeframe trade lists\<close>

lemma windowAfter_Nil [simp]: "windowAfter ms [] arr = arr"
  by (simp add: windowAfter_def)

lemma windowAfter_Cons [simp]:
  "windowAfter ms ((n, e) # evs) arr = windowAfter ms evs (pushAndFilter e n ms arr)"
  by (simp add: windowAfter_def)

lemma windowAfter_snoc:
  "windowAfter ms (evs @ [(n, e)]) arr = pushAndFilter e n ms (windowAfter ms evs arr)"
  by (simp add: windowAfter_def)

lemma pushAndFilter_alt:
  "pushAndFilter e n ms arr =
     filter (\<lambda>t. timestamp t \<ge> timestamp e - ms) (arr @ [stored (n, e)])"
  by (simp add: pushAndFilter_def stored_def Let_def)

lemma stored_simps [simp]:
  "timestamp (stored (n, e)) = timestamp e" "quantity (stored (n, e)) = signedQty e"
  by (simp_all add: stored_def)

text \<open>One pass of the loop of \<open>addTrade\<close> never meets a missing key and updates the list
  of every timeframe.\<close>

lemma addTrade_loop_ok:
  assumes "distinct (map fst ws)"
    and "list_all (\<lambda>(tf, ms). map_of tr tf = Some (g ms)) ws"
  shows "\<exists>tr'. addTrade_loop e n ws tr = Inr tr'
           \<and> list_all (\<lambda>(tf, ms). map_of tr' tf = Some (pushAndFilter e n ms (g ms))) ws
           \<and> (\<forall>k. k \<notin> fst ` set ws \<longrightarrow> map_of tr' k = map_of tr k)"
  using assms
proof (induction ws arbitrary: tr)
  case Nil
  then show ?case by simp
next
  case (Cons w ws)
  obtain tf ms where w: "w = (tf, ms)" by (cases w)
  let ?tr1 = "AList.update tf (pushAndFilter e n ms (g ms)) tr"
  from Cons.prems w have tf: "map_of tr tf = Some (g ms)" and notin: "tf \<notin> fst ` set ws"
    and dist: "distinct (map fst ws)" by auto
  have rest: "list_all (\<lambda>(tf, ms). map_of ?tr1 tf = Some (g ms)) ws"
    using Cons.prems(2) notin w
    by (fastforce simp: list_all_iff update_conv' case_prod_unfold)
  from Cons.IH [OF dist rest] obtain tr' where
    1: "addTrade_loop e n ws ?tr1 = Inr tr'" and
    2: "list_all (\<lambda>(tf, ms). map_of tr' tf = Some (pushAndFilter e n ms (g ms))) ws" and
    3: "\<forall>k. k \<notin> fst ` set ws \<longrightarrow> map_of tr' k = map_of ?tr1 k" by blast
  have "map_of tr' tf = Some (pushAndFilter e n ms (g ms))"
    using 3 notin by (simp add: update_conv')
  moreover have "\<forall>k. k \<notin> fst ` set (w # ws) \<longrightarrow> map_of tr' k = map_of tr k"
    using 3 w by (auto simp: update_conv')
  ultimately show ?case using 1 2 w tf by simp
qed

lemma addTrade_inv:
  assumes "cvd_inv c g"
  shows "\<exists>c'. addTrade n e c = Inr c' \<and> windows c' = windows c
           \<and> cvd_inv c' (\<lambda>ms. pushAndFilter e n ms (g ms))"
proof -
  from assms have d: "distinct (map fst (windows c))"
    and l: "list_all (\<lambda>(tf, ms). map_of (trades c) tf = Some (g ms)) (windows c)"
    by (simp_all add: cvd_inv_def)
  from addTrade_loop_ok [OF d l, of e n] obtain tr' where
    "addTrade_loop e n (windows c) (trades c) = Inr tr'"
    "list_all (\<lambda>(tf, ms). map_of tr' tf = Some (pushAndFilter e n ms (g ms))) (windows c)"
    by blast
  then show ?thesis using d by (simp add: addTrade_def cvd_inv_def)
qed

lemma addTrades_inv:
  "cvd_inv c g \<Longrightarrow>
   \<exists>c'. addTrades evs c = Inr c' \<and> windows c' = windows c
        \<and> cvd_inv c' (\<lambda>ms. windowAfter ms evs (g ms))"
proof (induction evs arbitrary: c g)
  case Nil
  then show ?case by simp
next
  case (Cons ev evs)
  obtain n e where ev: "ev = (n, e)" by (cases ev)
  from addTrade_inv [OF Cons.prems, of n e] obtain c1 where
    1: "addTrade n e c = Inr c1" "windows c1 = windows c"
       "cvd_inv c1 (\<lambda>ms. pushAndFilter e n ms (g ms))" by blast
  from Cons.IH [OF 1(3)] obtain c' where
    "addTrades evs c1 = Inr c'" "windows c' = windows c1"
    "cvd_inv c' (\<lambda>ms. windowAfter ms evs (pushAndFilter e n ms (g ms)))" by blast
  then show ?case using 1 ev by simp
qed

text \<open>The constructor establishes the invariant with empty lists, and keeps the
  timeframes of a record in their order.\<close>

lemma new_inv_gen:
  "cvd_inv c (\<lambda>ms. []) \<Longrightarrow>
   cvd_inv (foldl (\<lambda>c (tf, ms). \<lparr> windows = AList.update tf ms (windows c),
                            trades = AList.update tf [] (trades c) \<rparr>) c tfs) (\<lambda>ms. [])"
proof (induction tfs arbitrary: c)
  case Nil
  then show ?case by simp
next
  case (Cons t tfs)
  obtain tf ms where t: "t = (tf, ms)" by (cases t)
  have old: "\<forall>k \<in> fst ` set (windows c). map_of (trades c) k = Some []"
    using Cons.prems by (force simp: cvd_inv_def list_all_iff case_prod_unfold)
  have "\<forall>k \<in> fst ` set (AList.update tf ms (windows c)).
          map_of (AList.update tf [] (trades c)) k = Some []"
    using old by (simp add: dom_update update_conv')
  then have "list_all (\<lambda>(k, ms'). map_of (AList.update tf [] (trades c)) k = Some [])
               (AList.update tf ms (windows c))"
    by (force simp: list_all_iff case_prod_unfold)
  then have "cvd_inv \<lparr> windows = AList.update tf ms (windows c),
                            trades = AList.update tf [] (trades c) \<rparr> (\<lambda>ms. [])"
    using Cons.prems by (simp add: cvd_inv_def distinct_update)
  from Cons.IH [OF this] show ?case using t by simp
qed

lemma new_inv: "cvd_inv (CvdCalculator_new tfs) (\<lambda>ms. [])"
  unfolding CvdCalculator_new_def
  by (rule new_inv_gen) (simp add: cvd_inv_def)

lemma new_windows_gen:
  "distinct (map fst (ws @ tfs)) \<Longrightarrow>
   windows (foldl (\<lambda>c (tf, ms). \<lparr> windows = AList.update tf ms (windows c),
                            trades = AList.update tf [] (trades c) \<rparr>)
              \<lparr> windows = ws, trades = tr \<rparr> tfs) = ws @ tfs"
proof (induction tfs arbitrary: ws tr)
  case Nil
  then show ?case by simp
next
  case (Cons t tfs)
  obtain tf ms where t: "t = (tf, ms)" by (cases t)
  have "AList.update tf ms ws = ws @ [(tf, ms)]"
    using Cons.prems t by (induction ws) auto
  moreover have "distinct (map fst ((ws @ [(tf, ms)]) @ tfs))" using Cons.prems t by simp
  ultimately show ?case using Cons.IH [of "ws @ [(tf, ms)]"] t by simp
qed

lemma new_windows: "distinct (map fst tfs) \<Longrightarrow> windows (CvdCalculator_new tfs) = tfs"
  unfolding CvdCalculator_new_def using new_windows_gen [of "[]" tfs] by simp

lemma storedTrades_after:
  assumes "(tf, ms) \<in> set (windows (CvdCalculator_new tfs))"
  shows "\<exists>c. addTrades evs (CvdCalculator_new tfs) = Inr c
           \<and> storedTrades tf c = windowAfter ms evs []"
proof -
  from addTrades_inv [OF new_inv, of evs tfs] obtain c' where
    1: "addTrades evs (CvdCalculator_new tfs) = Inr c'"
       "windows c' = windows (CvdCalculator_new tfs)"
       "cvd_inv c' (\<lambda>ms. windowAfter ms evs [])" by blast
  from 1(3) 1(2) assms have "map_of (trades c') tf = Some (windowAfter ms evs [])"
    by (force simp: cvd_inv_def list_all_iff)
  then show ?thesis using 1(1) by (simp add: storedTrades_def)
qed

text \<open>With timestamps in order, a timeframe holds exactly the trades within its duration
  of the last trade.\<close>

lemma windowAfter_sorted:
  "sorted (map (\<lambda>ne. timestamp (snd ne)) evs) \<Longrightarrow> evs \<noteq> [] \<Longrightarrow>
   windowAfter ms evs [] =
     filter (\<lambda>t. timestamp t \<ge> timestamp (snd (last evs)) - ms) (map stored evs)"
proof (induction evs rule: rev_induct)
  case Nil
  then show ?case by simp
next
  case (snoc x evs)
  obtain n e where x: "x = (n, e)" by (cases x)
  show ?case
  proof (cases "evs = []")
    case True
    then show ?thesis using x by (simp add: windowAfter_snoc pushAndFilter_alt)
  next
    case False
    from snoc.prems have s: "sorted (map (\<lambda>ne. timestamp (snd ne)) evs)"
      and le: "timestamp (snd (last evs)) \<le> timestamp e"
      using False x by (auto simp: sorted_append)
    have "windowAfter ms evs [] =
       filter (\<lambda>t. timestamp t \<ge> timestamp (snd (last evs)) - ms) (map stored evs)"
      using snoc.IH [OF s False] .
    moreover have "filter (\<lambda>t. timestamp t \<ge> timestamp e - ms)
        (filter (\<lambda>t. timestamp t \<ge> timestamp (snd (last evs)) - ms) (map stored evs))
       = filter (\<lambda>t. timestamp t \<ge> timestamp e - ms) (map stored evs)"
      using le by (auto intro!: filter_cong)
    ultimately show ?thesis using x
      by (simp add: windowAfter_snoc pushAndFilter_alt)
  qed
qed

lemma foldl_quantity: "foldl (\<lambda>acc t. acc + quantity t) a arr = a + sum_list (map quantity arr)"
  by (induction arr arbitrary: a) simp_all

lemma sum_window_spec:
  "sum_list (map quantity (filter (\<lambda>t. timestamp t \<ge> c) (map stored evs)))
   = sum_list (map signedQty (filter (\<lambda>e. timestamp e \<ge> c) (map snd evs)))"
  by (induction evs) auto

lemma computeMetrics_loop_inv:
  "list_all (\<lambda>(tf, ms). map_of tr tf = Some (g ms)) ws \<Longrightarrow>
   computeMetrics_loop ws tr =
     Inr (map (\<lambda>(tf, ms). \<lparr> timeframe = tf, cvd = sum_list (map quantity (g ms)),
                              delta = sum_list (map quantity (g ms)) \<rparr>) ws)"
  by (induction ws) (auto simp: foldl_quantity Let_def)

lemma metricsAfter_new:
  "metricsAfter evs (CvdCalculator_new tfs) =
     Inr (map (\<lambda>(tf, ms). \<lparr> timeframe = tf, cvd = sum_list (map quantity (windowAfter ms evs [])),
                              delta = sum_list (map quantity (windowAfter ms evs [])) \<rparr>)
            (windows (CvdCalculator_new tfs)))"
proof -
  from addTrades_inv [OF new_inv, of evs tfs] obtain c' where
    1: "addTrades evs (CvdCalculator_new tfs) = Inr c'"
       "windows c' = windows (CvdCalculator_new tfs)"
       "cvd_inv c' (\<lambda>ms. windowAfter ms evs [])" by blast
  from 1(3) have "list_all (\<lambda>(tf, ms). map_of (trades c') tf = Some (windowAfter ms evs []))
      (windows c')"
    by (simp add: cvd_inv_def)
  from computeMetrics_loop_inv [OF this] show ?thesis
    using 1 by (simp add: metricsAfter_def computeMetrics_def)
qed

lemma refTime_last_snd:
  "evs \<noteq> [] \<Longrightarrow> refTime_last (map snd evs) = timestamp (snd (last evs))"
  by (induction evs rule: rev_induct) (simp_all add: refTime_last_def)




section \<open>The size of the rolling trade lists\<close>

lemma windowAfter_same:
  "0 \<le> ms \<Longrightarrow> windowAfter ms (replicate k (n, e)) [] = replicate k (stored (n, e))"
proof (induction k)
  case 0
  then show ?case by simp
next
  case (Suc k)
  have "replicate (Suc k) (n, e) = replicate k (n, e) @ [(n, e)]"
    by (simp add: replicate_append_same)
  then have "windowAfter ms (replicate (Suc k) (n, e)) []
      = pushAndFilter e n ms (replicate k (stored (n, e)))"
    using Suc by (simp add: windowAfter_snoc del: replicate_Suc)
  also have "\<dots> = replicate k (stored (n, e)) @ [stored (n, e)]"
    using Suc.prems by (simp add: pushAndFilter_alt)
  finally show ?case by (simp add: replicate_append_same)
qed

lemma pushAndFilter_length: "length (pushAndFilter e n ms arr) \<le> Suc (length arr)"
  unfolding pushAndFilter_alt
  by (rule order_trans [OF length_filter_le]) simp

lemma windowAfter_length: "length (windowAfter ms evs arr) \<le> length arr + length evs"
proof (induction evs arbitrary: arr)
  case Nil
  then show ?case by simp
next
  case (Cons ev evs)
  obtain n e where ev: "ev = (n, e)" by (cases ev)
  have "length (windowAfter ms evs (pushAndFilter e n ms arr))
        \<le> length (pushAndFilter e n ms arr) + length evs" by (rule Cons.IH)
  then show ?case using pushAndFilter_length [of e n ms arr] ev by simp
qed

lemma windowAfter_recent:
  "evs \<noteq> [] \<Longrightarrow>
   list_all (\<lambda>t. timestamp t \<ge> timestamp (snd (last evs)) - ms) (windowAfter ms evs arr)"
proof (induction evs rule: rev_induct)
  case Nil
  then show ?case by simp
next
  case (snoc x evs)
  obtain n e where x: "x = (n, e)" by (cases x)
  show ?case using x by (simp add: windowAfter_snoc pushAndFilter_alt list_all_iff)
qed

lemma legacy_trades_step:
  "LegacyCalculator.trades (LegacyCalculator_addTrade t c)
     = dropWhile (\<lambda>x. timestamp x < timestamp t - 10000) (LegacyCalculator.trades c @ [t])"
  by (simp add: LegacyCalculator_addTrade_def Let_def)

lemma legacy_same:
  "list_all (\<lambda>x. timestamp x = timestamp t) (LegacyCalculator.trades c) \<Longrightarrow>
   LegacyCalculator.trades (LegacyCalculator_addTrades (replicate k t) c)
     = LegacyCalculator.trades c @ replicate k t"
proof (induction k arbitrary: c)
  case 0
  then show ?case by simp
next
  case (Suc k)
  have step: "LegacyCalculator.trades (LegacyCalculator_addTrade t c) = LegacyCalculator.trades c @ [t]"
    unfolding legacy_trades_step
  proof (cases "LegacyCalculator.trades c")
    case Nil
    then show "dropWhile (\<lambda>x. timestamp x < timestamp t - 10000) (LegacyCalculator.trades c @ [t])
       = LegacyCalculator.trades c @ [t]" by simp
  next
    case (Cons a as)
    then show "dropWhile (\<lambda>x. timestamp x < timestamp t - 10000) (LegacyCalculator.trades c @ [t])
       = LegacyCalculator.trades c @ [t]" using Suc.prems by simp
  qed
  then have "list_all (\<lambda>x. timestamp x = timestamp t)
     (LegacyCalculator.trades (LegacyCalculator_addTrade t c))"
    using Suc.prems by simp
  from Suc.IH [OF this] show ?case using step by (simp add: replicate_app_Cons_same)
qed

lemma legacy_length:
  "length (LegacyCalculator.trades (LegacyCalculator_addTrades ts c))
     \<le> length (LegacyCalculator.trades c) + length ts"
proof (induction ts arbitrary: c)
  case Nil
  then show ?case by simp
next
  case (Cons t ts)
  have "length (LegacyCalculator.trades (LegacyCalculator_addTrade t c))
        \<le> Suc (length (LegacyCalculator.trades c))"
    unfolding legacy_trades_step
    by (rule order_trans [OF length_dropWhile_le]) simp
  then show ?case using Cons.IH [of "LegacyCalculator_addTrade t c"] by simp
qed

lemma legacy_addTrades_snoc:
  "LegacyCalculator_addTrades (ts @ [t]) c
     = LegacyCalculator_addTrade t (LegacyCalculator_addTrades ts c)"
  by (induction ts arbitrary: c) simp_all

lemma legacy_head:
  assumes "ts \<noteq> []"
  shows "(case LegacyCalculator.trades (LegacyCalculator_addTrades ts c) of
            [] \<Rightarrow> True
          | t # rest \<Rightarrow> timestamp t \<ge> timestamp (last ts) - 10000)"
proof -
  obtain ts' t where ts: "ts = ts' @ [t]" using assms by (metis rev_exhaust)
  let ?xs = "LegacyCalculator.trades (LegacyCalculator_addTrades ts' c) @ [t]"
  let ?P = "\<lambda>x. timestamp x < timestamp t - 10000"
  have eq: "LegacyCalculator.trades (LegacyCalculator_addTrades ts c) = dropWhile ?P ?xs"
    by (simp add: ts legacy_addTrades_snoc legacy_trades_step)
  show ?thesis
  proof (cases "dropWhile ?P ?xs")
    case Nil
    then show ?thesis using eq by simp
  next
    case (Cons y ys)
    then have "\<not> ?P (hd (dropWhile ?P ?xs))" using hd_dropWhile [of ?P ?xs] by simp
    then show ?thesis using eq Cons ts by simp
  qed
qed

text \<open>
  C7 (amended). No rolling trade list has a cap on its number of entries; each is bounded
  by time alone. After any non-empty sequence of \<open>addTrade\<close> calls, each per-timeframe list
  of the \<open>CvdCalculator\<close> holds at most as many entries as trades were added, all of them
  with \<open>timestamp \<ge> last added timestamp - durationMs\<close>; the rolling list of the
  \<open>LegacyCalculator\<close> holds at most as many entries as trades were added, and its first
  entry has \<open>timestamp \<ge> last added timestamp - 10 000\<close>.
\<close>

theorem windows_bounded_by_time:
  assumes "(tf, ms) \<in> set (windows (CvdCalculator_new tfs))" and "evs \<noteq> []" and "ts \<noteq> []"
  shows "(\<exists>c. addTrades evs (CvdCalculator_new tfs) = Inr c
            \<and> length (storedTrades tf c) \<le> length evs
            \<and> list_all (\<lambda>t. timestamp t \<ge> timestamp (snd (last evs)) - ms) (storedTrades tf c))
       \<and> length (LegacyCalculator.trades (LegacyCalculator_addTrades ts LegacyCalculator_new))
           \<le> length ts
       \<and> (case LegacyCalculator.trades (LegacyCalculator_addTrades ts LegacyCalculator_new) of
             [] \<Rightarrow> True
           | t # rest \<Rightarrow> timestamp t \<ge> timestamp (last ts) - 10000)"
proof -
  from storedTrades_after [OF assms(1), of evs] obtain c where
    c: "addTrades evs (CvdCalculator_new tfs) = Inr c"
       "storedTrades tf c = windowAfter ms evs []" by blast
  have "length (storedTrades tf c) \<le> length evs"
    using windowAfter_length [of ms evs "[]"] c(2) by simp
  moreover have "list_all (\<lambda>t. timestamp t \<ge> timestamp (snd (last evs)) - ms) (storedTrades tf c)"
    using windowAfter_recent [OF assms(2), of ms "[]"] c(2) by simp
  moreover have "length (LegacyCalculator.trades (LegacyCalculator_addTrades ts LegacyCalculator_new))
           \<le> length ts"
    using legacy_length [of ts LegacyCalculator_new] by (simp add: LegacyCalculator_new_def)
  ultimately show ?thesis using c(1) legacy_head [OF assms(3), of LegacyCalculator_new] by simp
qed

text \<open>Two trades 69 s apart: the one-minute list and the ten-second list both end with
  the second trade alone.\<close>

theorem windows_bounded_by_time_witness:
  "(''1m'', 60000) \<in> set (windows (CvdCalculator_new [(''1m'', 60000)]))
   \<and> addTrades [(0, \<lparr> price = 1, quantity = 1, side = buy, timestamp = 1000 \<rparr>),
                (0, \<lparr> price = 1, quantity = 2, side = sell, timestamp = 70000 \<rparr>)]
       (CvdCalculator_new [(''1m'', 60000)])
     = Inr \<lparr> windows = [(''1m'', 60000)],
             trades = [(''1m'', [\<lparr> price = 1, quantity = - 2, side = sell, timestamp = 70000,
                                   arrival = 0 \<rparr>])] \<rparr>
   \<and> LegacyCalculator.trades (LegacyCalculator_addTrades
        [\<lparr> price = 1, quantity = 1, side = buy, timestamp = 1000 \<rparr>,
         \<lparr> price = 1, quantity = 2, side = sell, timestamp = 70000 \<rparr>] LegacyCalculator_new)
     = [\<lparr> price = 1, quantity = 2, side = sell, timestamp = 70000 \<rparr>]"
  using windows_bounded_by_time [of "''1m''" 60000 "[(''1m'', 60000)]"
      "[(0, \<lparr> price = 1, quantity = 1, side = buy, timestamp = 1000 \<rparr>),
        (0, \<lparr> price = 1, quantity = 2, side = sell, timestamp = 70000 \<rparr>)]"
      "[\<lparr> price = 1, quantity = 1, side = buy, timestamp = 1000 \<rparr>,
         \<lparr> price = 1, quantity = 2, side = sell, timestamp = 70000 \<rparr>]"]
  by (simp add: CvdCalculator_new_def addTrade_def pushAndFilter_def signedQty_def
      LegacyCalculator_addTrade_def LegacyCalculator_new_def pushLimited_def Let_def)

text \<open>10 001 trades with one timestamp: the one-minute list of the \<open>CvdCalculator\<close> and
  the rolling list of the \<open>LegacyCalculator\<close> both hold 10 001 entries.\<close>

theorem no_entry_cap_counterexample:
  "(case addTrades (replicate 10001 (0, \<lparr> price = 1, quantity = 1, side = buy, timestamp = 0 \<rparr>))
           (CvdCalculator_new [(''1m'', 60000)]) of
      Inl e \<Rightarrow> False
    | Inr c \<Rightarrow> length (storedTrades ''1m'' c) = 10001)
   \<and> length (LegacyCalculator.trades
        (LegacyCalculator_addTrades
           (replicate 10001 \<lparr> price = 1, quantity = 1, side = buy, timestamp = 0 \<rparr>)
           LegacyCalculator_new)) = 10001"
proof -
  let ?e = "\<lparr> price = 1, quantity = 1, side = buy, timestamp = 0 \<rparr>"
  have w: "(''1m'', 60000) \<in> set (windows (CvdCalculator_new [(''1m'', 60000)]))"
    by (simp add: CvdCalculator_new_def)
  from storedTrades_after [OF w, of "replicate 10001 (0, ?e)"] obtain c where
    c: "addTrades (replicate 10001 (0, ?e)) (CvdCalculator_new [(''1m'', 60000)]) = Inr c"
       "storedTrades ''1m'' c = windowAfter 60000 (replicate 10001 (0, ?e)) []" by blast
  have "length (storedTrades ''1m'' c) = 10001"
    unfolding c(2) by (simp add: windowAfter_same)
  moreover have "length (LegacyCalculator.trades
        (LegacyCalculator_addTrades (replicate 10001 ?e) LegacyCalculator_new)) = 10001"
    by (subst legacy_same) (simp_all add: LegacyCalculator_new_def)
  ultimately show ?thesis using c(1) by simp
qed

section \<open>Order-book imbalance\<close>

lemma sum_take_sorted_nonneg:
  fixes f :: "real \<times> real \<Rightarrow> real"
  assumes "list_all (\<lambda>e. snd e \<ge> 0) levels"
  shows "0 \<le> sum_list (map snd (take n (sort_key f levels)))"
proof (rule sum_list_nonneg)
  fix y assume "y \<in> set (map snd (take n (sort_key f levels)))"
  then obtain x where x: "x \<in> set (take n (sort_key f levels))" and y: "y = snd x" by auto
  from x have "x \<in> set levels" using in_set_takeD [of x n "sort_key f levels"] by simp
  then show "0 \<le> y" using assms y by (simp add: list_all_iff)
qed

lemma calcVolume_nonneg:
  assumes "list_all (\<lambda>e. snd e \<ge> 0) levels"
  shows "0 \<le> calcVolume levels depth isAsk"
  by (cases isAsk) (simp_all add: calcVolume_def Let_def sum_take_sorted_nonneg [OF assms])

lemma calcVolume_Nil [simp]: "calcVolume [] depth isAsk = 0"
  by (simp add: calcVolume_def)

lemma ratio_bounds:
  fixes x y :: real
  assumes "0 \<le> x" "0 \<le> y" "0 < x + y"
  shows "- 1 \<le> (x - y) / (x + y)" "(x - y) / (x + y) \<le> 1"
  using assms by (simp_all add: pos_le_divide_eq pos_divide_le_eq)

lemma EPSILON_pos: "0 < EPSILON"
  by (simp add: EPSILON_def)

lemma obi_ratio:
  fixes x y :: real
  assumes "0 \<le> x" "0 \<le> y"
  shows "- 1 \<le> (if x + y > EPSILON then (x - y) / (x + y) else 0)
       \<and> (if x + y > EPSILON then (x - y) / (x + y) else 0) \<le> 1"
proof (cases "x + y > EPSILON")
  case True
  then have "0 < x + y" using EPSILON_pos by linarith
  from ratio_bounds [OF assms this] True show ?thesis by simp
next
  case False
  then show ?thesis by simp
qed

lemma computeMetrics_obi:
  "obiWeighted (LegacyCalculator_computeMetrics now c ob) =
     (if calcVolume (bids ob) 10 False + calcVolume (asks ob) 10 True > EPSILON
      then (calcVolume (bids ob) 10 False - calcVolume (asks ob) 10 True)
             / (calcVolume (bids ob) 10 False + calcVolume (asks ob) 10 True)
      else 0)"
  "obiDeep (LegacyCalculator_computeMetrics now c ob) =
     (if calcVolume (bids ob) 50 False + calcVolume (asks ob) 50 True > EPSILON
      then (calcVolume (bids ob) 50 False - calcVolume (asks ob) 50 True)
             / (calcVolume (bids ob) 50 False + calcVolume (asks ob) 50 True)
      else 0)"
  "obiDivergence (LegacyCalculator_computeMetrics now c ob) =
     obiWeighted (LegacyCalculator_computeMetrics now c ob)
       - obiDeep (LegacyCalculator_computeMetrics now c ob)"
  by (simp_all add: LegacyCalculator_computeMetrics_def Let_def)

text \<open>The model gives the values the repository's test of the calculator expects: buys
  of 3 at 99 and 2 at 100 and a sell of 1 at 101, at 4000, 500 and 400 ms before the last
  reference time, give \<open>delta1s = 1\<close>, \<open>delta5s = 4\<close>, \<open>vwap = 598 / 6\<close> and
  \<open>cvdSession = 4\<close>.\<close>

lemma legacy_test_scenario:
  "delta1s (LegacyCalculator_computeMetrics 10000
      (LegacyCalculator_addTrades
         [\<lparr> price = 99, quantity = 3, side = buy, timestamp = 6000 \<rparr>,
          \<lparr> price = 100, quantity = 2, side = buy, timestamp = 9500 \<rparr>,
          \<lparr> price = 101, quantity = 1, side = sell, timestamp = 9600 \<rparr>] LegacyCalculator_new)
      createOrderbookState) = 1
   \<and> delta5s (LegacyCalculator_computeMetrics 10000
      (LegacyCalculator_addTrades
         [\<lparr> price = 99, quantity = 3, side = buy, timestamp = 6000 \<rparr>,
          \<lparr> price = 100, quantity = 2, side = buy, timestamp = 9500 \<rparr>,
          \<lparr> price = 101, quantity = 1, side = sell, timestamp = 9600 \<rparr>] LegacyCalculator_new)
      createOrderbookState) = 4
   \<and> vwap (LegacyCalculator_computeMetrics 10000
      (LegacyCalculator_addTrades
         [\<lparr> price = 99, quantity = 3, side = buy, timestamp = 6000 \<rparr>,
          \<lparr> price = 100, quantity = 2, side = buy, timestamp = 9500 \<rparr>,
          \<lparr> price = 101, quantity = 1, side = sell, timestamp = 9600 \<rparr>] LegacyCalculator_new)
      createOrderbookState) = 598 / 6
   \<and> LegacyMetrics.cvdSession (LegacyCalculator_computeMetrics 10000
      (LegacyCalculator_addTrades
         [\<lparr> price = 99, quantity = 3, side = buy, timestamp = 6000 \<rparr>,
          \<lparr> price = 100, quantity = 2, side = buy, timestamp = 9500 \<rparr>,
          \<lparr> price = 101, quantity = 1, side = sell, timestamp = 9600 \<rparr>] LegacyCalculator_new)
      createOrderbookState) = 4"
  by (simp add: LegacyCalculator_computeMetrics_def LegacyCalculator_addTrade_def
      LegacyCalculator_new_def pushLimited_def EPSILON_def Let_def)

text \<open>
  C4 (amended). For every order-book state whose sizes are non-negative, \<open>obiWeighted\<close> and
  \<open>obiDeep\<close> lie in \<open>[-1, +1]\<close> and \<open>obiDivergence\<close> lies in \<open>[-2, +2]\<close>; and whenever the bid
  side and the ask side of the book are both empty, \<open>obiWeighted\<close>, \<open>obiDeep\<close> and
  \<open>obiDivergence\<close> all equal 0. This holds in every state of the calculator and at every
  reading of the clock.
\<close>

theorem obi_ranges:
  "(sizesNonNegative ob \<longrightarrow>
      - 1 \<le> obiWeighted (LegacyCalculator_computeMetrics now c ob)
    \<and> obiWeighted (LegacyCalculator_computeMetrics now c ob) \<le> 1
    \<and> - 1 \<le> obiDeep (LegacyCalculator_computeMetrics now c ob)
    \<and> obiDeep (LegacyCalculator_computeMetrics now c ob) \<le> 1
    \<and> - 2 \<le> obiDivergence (LegacyCalculator_computeMetrics now c ob)
    \<and> obiDivergence (LegacyCalculator_computeMetrics now c ob) \<le> 2)
   \<and> (bids ob = [] \<and> asks ob = [] \<longrightarrow>
        obiWeighted (LegacyCalculator_computeMetrics now c ob) = 0
      \<and> obiDeep (LegacyCalculator_computeMetrics now c ob) = 0
      \<and> obiDivergence (LegacyCalculator_computeMetrics now c ob) = 0)"
proof (intro conjI impI)
  assume nn: "sizesNonNegative ob"
  have b: "0 \<le> calcVolume (bids ob) n False" and a: "0 \<le> calcVolume (asks ob) n True" for n
    using nn by (simp_all add: sizesNonNegative_def calcVolume_nonneg)
  have w: "- 1 \<le> obiWeighted (LegacyCalculator_computeMetrics now c ob)
         \<and> obiWeighted (LegacyCalculator_computeMetrics now c ob) \<le> 1"
    using obi_ratio [OF b a, of 10 10] by (simp add: computeMetrics_obi(1))
  have d: "- 1 \<le> obiDeep (LegacyCalculator_computeMetrics now c ob)
         \<and> obiDeep (LegacyCalculator_computeMetrics now c ob) \<le> 1"
    using obi_ratio [OF b a, of 50 50] by (simp add: computeMetrics_obi(2))
  note v = computeMetrics_obi(3) [of now c ob]
  show "- 1 \<le> obiWeighted (LegacyCalculator_computeMetrics now c ob)" using w by simp
  show "obiWeighted (LegacyCalculator_computeMetrics now c ob) \<le> 1" using w by simp
  show "- 1 \<le> obiDeep (LegacyCalculator_computeMetrics now c ob)" using d by simp
  show "obiDeep (LegacyCalculator_computeMetrics now c ob) \<le> 1" using d by simp
  show "- 2 \<le> obiDivergence (LegacyCalculator_computeMetrics now c ob)" using w d v by linarith
  show "obiDivergence (LegacyCalculator_computeMetrics now c ob) \<le> 2" using w d v by linarith
next
  assume e: "bids ob = [] \<and> asks ob = []"
  then have w: "obiWeighted (LegacyCalculator_computeMetrics now c ob) = 0"
    using EPSILON_pos by (simp add: computeMetrics_obi(1))
  from e have d: "obiDeep (LegacyCalculator_computeMetrics now c ob) = 0"
    using EPSILON_pos by (simp add: computeMetrics_obi(2))
  show "obiWeighted (LegacyCalculator_computeMetrics now c ob) = 0" by (rule w)
  show "obiDeep (LegacyCalculator_computeMetrics now c ob) = 0" by (rule d)
  show "obiDivergence (LegacyCalculator_computeMetrics now c ob) = 0"
    using w d computeMetrics_obi(3) [of now c ob] by simp
qed

text \<open>The book of the repository's test (bids 100:10 and 99:5, asks 101:7 and 102:3) gives
  0.2, 0.2 and 0; the empty book gives 0.\<close>

theorem obi_ranges_witness:
  "sizesNonNegative \<lparr> bids = [(100, 10), (99, 5)], asks = [(101, 7), (102, 3)], lastUpdateId = 1 \<rparr>
   \<and> obiWeighted (LegacyCalculator_computeMetrics 0 LegacyCalculator_new
        \<lparr> bids = [(100, 10), (99, 5)], asks = [(101, 7), (102, 3)], lastUpdateId = 1 \<rparr>) = 1 / 5
   \<and> obiDeep (LegacyCalculator_computeMetrics 0 LegacyCalculator_new
        \<lparr> bids = [(100, 10), (99, 5)], asks = [(101, 7), (102, 3)], lastUpdateId = 1 \<rparr>) = 1 / 5
   \<and> obiDivergence (LegacyCalculator_computeMetrics 0 LegacyCalculator_new
        \<lparr> bids = [(100, 10), (99, 5)], asks = [(101, 7), (102, 3)], lastUpdateId = 1 \<rparr>) = 0
   \<and> obiWeighted (LegacyCalculator_computeMetrics 0 LegacyCalculator_new
        \<lparr> bids = [], asks = [], lastUpdateId = 1 \<rparr>) = 0"
  using obi_ranges [of "\<lparr> bids = [(100, 10), (99, 5)], asks = [(101, 7), (102, 3)],
        lastUpdateId = 1 \<rparr>" 0 LegacyCalculator_new]
    obi_ranges [of "\<lparr> bids = [], asks = [], lastUpdateId = 1 \<rparr>" 0 LegacyCalculator_new]
  by (simp add: sizesNonNegative_def computeMetrics_obi calcVolume_def EPSILON_def Let_def)

text \<open>With the bid side empty and one ask level of size 7, \<open>obiWeighted\<close> and \<open>obiDeep\<close> are
  \<open>-1\<close>, not 0. And a negative size leaves the range: a bid of size 3 against an ask of
  size \<open>-1\<close> gives \<open>obiWeighted = 2\<close>.\<close>

theorem obi_one_sided_counterexample:
  "obiWeighted (LegacyCalculator_computeMetrics 0 LegacyCalculator_new
        \<lparr> bids = [], asks = [(101, 7)], lastUpdateId = 1 \<rparr>) = - 1
   \<and> obiDeep (LegacyCalculator_computeMetrics 0 LegacyCalculator_new
        \<lparr> bids = [], asks = [(101, 7)], lastUpdateId = 1 \<rparr>) = - 1
   \<and> obiWeighted (LegacyCalculator_computeMetrics 0 LegacyCalculator_new
        \<lparr> bids = [(100, 3)], asks = [(101, - 1)], lastUpdateId = 1 \<rparr>) = 2"
  by (simp add: computeMetrics_obi calcVolume_def EPSILON_def Let_def)

section \<open>Sizing: the min-notional block and the required margin\<close>










section \<open>Open-interest metrics\<close>

lemma buildMetrics_fields:
  "oiChangeAbs (buildMetrics now src m) =
     currentOI m - (case find (\<lambda>h. OiRecord.timestamp h \<ge> now - 60000) (oiHistory m) of
                      Some h \<Rightarrow> oi_value h
                    | None \<Rightarrow> (case oiHistory m of [] \<Rightarrow> currentOI m | h # hs \<Rightarrow> oi_value h))"
  "oiDeltaWindow (buildMetrics now src m) = oiChangeAbs (buildMetrics now src m)"
  by (simp_all add: buildMetrics_def WINDOW_MS_def Let_def split: option.splits list.splits)

lemma buildMetrics_pct:
  "oiChangePct (buildMetrics now src m) =
     (if currentOI m - oiChangeAbs (buildMetrics now src m) > 0
      then oiChangeAbs (buildMetrics now src m)
             / (currentOI m - oiChangeAbs (buildMetrics now src m)) * 100
      else 0)"
  by (simp add: buildMetrics_def WINDOW_MS_def Let_def split: option.splits list.splits)

text \<open>
  C8 (amended). At every read of the monitor's metrics, \<open>oiChangeAbs = currentOI - baseline\<close>,
  \<open>oiDeltaWindow = oiChangeAbs\<close>, and \<open>oiChangePct = (currentOI - baseline) / baseline * 100\<close>
  with 0 produced when \<open>baseline \<le> 0\<close>, where \<open>baseline\<close> is the value of the oldest history
  sample with timestamp \<open>\<ge> now - 60 s\<close> when there is one (the first such sample of the
  history, which has the least timestamp of the window when the history is in clock
  order), otherwise the value of the oldest history sample of all, and \<open>currentOI\<close> itself
  when the history is empty.
\<close>

theorem oi_metrics:
  "oiDeltaWindow (buildMetrics now src m) = oiChangeAbs (buildMetrics now src m)
   \<and> (\<exists>baseline.
        oiChangeAbs (buildMetrics now src m) = currentOI m - baseline
      \<and> oiChangePct (buildMetrics now src m)
          = (if baseline > 0 then (currentOI m - baseline) / baseline * 100 else 0)
      \<and> (case spec_baseline now (oiHistory m) of
            Some h \<Rightarrow>
              baseline = oi_value h
              \<and> (\<exists>i < length (oiHistory m). oiHistory m ! i = h
                    \<and> OiRecord.timestamp h \<ge> now - 60000
                    \<and> (\<forall>j < i. OiRecord.timestamp (oiHistory m ! j) < now - 60000))
              \<and> (sorted (map OiRecord.timestamp (oiHistory m)) \<longrightarrow>
                    list_all (\<lambda>s. OiRecord.timestamp s \<ge> now - 60000
                                  \<longrightarrow> OiRecord.timestamp h \<le> OiRecord.timestamp s)
                      (oiHistory m))
          | None \<Rightarrow>
              (case oiHistory m of [] \<Rightarrow> baseline = currentOI m | h # hs \<Rightarrow> baseline = oi_value h)))"
proof -
  let ?b = "currentOI m - oiChangeAbs (buildMetrics now src m)"
  have 1: "oiChangeAbs (buildMetrics now src m) = currentOI m - ?b" by simp
  have 2: "oiChangePct (buildMetrics now src m)
          = (if ?b > 0 then (currentOI m - ?b) / ?b * 100 else 0)"
    using buildMetrics_pct [of now src m] by simp
  have 3: "(case spec_baseline now (oiHistory m) of
            Some h \<Rightarrow>
              ?b = oi_value h
              \<and> (\<exists>i < length (oiHistory m). oiHistory m ! i = h
                    \<and> OiRecord.timestamp h \<ge> now - 60000
                    \<and> (\<forall>j < i. OiRecord.timestamp (oiHistory m ! j) < now - 60000))
              \<and> (sorted (map OiRecord.timestamp (oiHistory m)) \<longrightarrow>
                    list_all (\<lambda>s. OiRecord.timestamp s \<ge> now - 60000
                                  \<longrightarrow> OiRecord.timestamp h \<le> OiRecord.timestamp s)
                      (oiHistory m))
          | None \<Rightarrow>
              (case oiHistory m of [] \<Rightarrow> ?b = currentOI m | h # hs \<Rightarrow> ?b = oi_value h))"
  proof (cases "spec_baseline now (oiHistory m)")
    case None
    then have f: "find (\<lambda>h. OiRecord.timestamp h \<ge> now - 60000) (oiHistory m) = None"
      by (simp add: spec_baseline_def)
    have "?b = (case oiHistory m of [] \<Rightarrow> currentOI m | h # hs \<Rightarrow> oi_value h)"
      by (simp add: buildMetrics_fields(1) f del: find.simps)
    then show ?thesis using None by (simp split: list.splits)
  next
    case (Some h)
    then have f: "find (\<lambda>h. OiRecord.timestamp h \<ge> now - 60000) (oiHistory m) = Some h"
      by (simp add: spec_baseline_def)
    then have first: "\<exists>i < length (oiHistory m). oiHistory m ! i = h
                    \<and> OiRecord.timestamp h \<ge> now - 60000
                    \<and> (\<forall>j < i. OiRecord.timestamp (oiHistory m ! j) < now - 60000)"
      unfolding find_Some_iff by (metis not_le)
    have least: "list_all (\<lambda>s. OiRecord.timestamp s \<ge> now - 60000
                                  \<longrightarrow> OiRecord.timestamp h \<le> OiRecord.timestamp s)
                      (oiHistory m)"
      if srt: "sorted (map OiRecord.timestamp (oiHistory m))"
      unfolding list_all_iff
    proof (intro ballI impI)
      fix s assume s: "s \<in> set (oiHistory m)" and w: "OiRecord.timestamp s \<ge> now - 60000"
      from first obtain i where i: "i < length (oiHistory m)" "oiHistory m ! i = h"
        "\<forall>j < i. OiRecord.timestamp (oiHistory m ! j) < now - 60000" by blast
      from s obtain k where k: "k < length (oiHistory m)" "oiHistory m ! k = s"
        by (auto simp: in_set_conv_nth)
      have ik: "i \<le> k" using i(3) k(2) w by (meson not_le)
      have "OiRecord.timestamp (oiHistory m ! i) \<le> OiRecord.timestamp (oiHistory m ! k)"
        using sorted_nth_mono [of "map OiRecord.timestamp (oiHistory m)" i k] srt ik k(1) i(1)
        by simp
      then show "OiRecord.timestamp h \<le> OiRecord.timestamp s" using i k by simp
    qed
    show ?thesis using Some f first least by (simp add: buildMetrics_fields)
  qed
  show ?thesis using buildMetrics_fields(2) [of now src m] 1 2 3 by blast
qed

text \<open>Samples of 100 at 1 s and 120 at 2 s, read at 50 s: both are in the window, the
  baseline is the older one, and the change is 20.\<close>

theorem oi_metrics_witness:
  "spec_baseline 50000 (oiHistory (OpenInterestMonitor_update 2000 120
        (OpenInterestMonitor_update 1000 100 (OpenInterestMonitor_new ''BTCUSDT''))))
     = Some \<lparr> oi_value = 100, timestamp = 1000 \<rparr>
   \<and> oiChangeAbs (getMetrics 50000 (OpenInterestMonitor_update 2000 120
        (OpenInterestMonitor_update 1000 100 (OpenInterestMonitor_new ''BTCUSDT'')))) = 20
   \<and> oiDeltaWindow (getMetrics 50000 (OpenInterestMonitor_update 2000 120
        (OpenInterestMonitor_update 1000 100 (OpenInterestMonitor_new ''BTCUSDT'')))) = 20
   \<and> oiChangePct (getMetrics 50000 (OpenInterestMonitor_update 2000 120
        (OpenInterestMonitor_update 1000 100 (OpenInterestMonitor_new ''BTCUSDT'')))) = 20"
  using oi_metrics [of 50000 Real "OpenInterestMonitor_update 2000 120
        (OpenInterestMonitor_update 1000 100 (OpenInterestMonitor_new ''BTCUSDT''))"]
  by (simp add: spec_baseline_def getMetrics_def buildMetrics_def OpenInterestMonitor_update_def
      OpenInterestMonitor_new_def WINDOW_MS_def Let_def)

text \<open>The same two samples read at 100 s: no sample has a timestamp \<open>\<ge> now - 60 s\<close>, and
  the metrics still report a change of 20, against the sample taken 99 s before.\<close>

theorem oi_stale_baseline_counterexample:
  "oiHistory (OpenInterestMonitor_update 2000 120
        (OpenInterestMonitor_update 1000 100 (OpenInterestMonitor_new ''BTCUSDT'')))
     = [\<lparr> oi_value = 100, timestamp = 1000 \<rparr>, \<lparr> oi_value = 120, timestamp = 2000 \<rparr>]
   \<and> spec_baseline 100000
     (oiHistory (OpenInterestMonitor_update 2000 120
        (OpenInterestMonitor_update 1000 100 (OpenInterestMonitor_new ''BTCUSDT'')))) = None
   \<and> oiChangeAbs (getMetrics 100000 (OpenInterestMonitor_update 2000 120
        (OpenInterestMonitor_update 1000 100 (OpenInterestMonitor_new ''BTCUSDT'')))) = 20
   \<and> oiChangePct (getMetrics 100000 (OpenInterestMonitor_update 2000 120
        (OpenInterestMonitor_update 1000 100 (OpenInterestMonitor_new ''BTCUSDT'')))) = 20"
  by (simp add: spec_baseline_def getMetrics_def buildMetrics_def OpenInterestMonitor_update_def
      OpenInterestMonitor_new_def WINDOW_MS_def Let_def)

section \<open>The freeze assessment decides on the level alone\<close>

text \<open>
  C10. \<open>assessFreezeFromExecQuality\<close> sets \<open>freezeActive\<close> exactly for the level \<open>BAD\<close>;
  the level \<open>UNKNOWN\<close> gives no freeze with the reason \<open>exec_quality_unknown\<close>, and every
  other level gives no freeze and no reason.
\<close>

theorem assessFreeze_levels:
  "(freezeActive (assessFreezeFromExecQuality q) \<longleftrightarrow> q = ''BAD'')
   \<and> (q = ''UNKNOWN'' \<longrightarrow>
        assessFreezeFromExecQuality q = \<lparr> freezeActive = False, reason = Some exec_quality_unknown \<rparr>)
   \<and> (q \<noteq> ''BAD'' \<and> q \<noteq> ''UNKNOWN'' \<longrightarrow>
        assessFreezeFromExecQuality q = \<lparr> freezeActive = False, reason = None \<rparr>)"
  by (simp add: assessFreezeFromExecQuality_def)

theorem assessFreeze_levels_witness:
  "freezeActive (assessFreezeFromExecQuality ''BAD'')
   \<and> assessFreezeFromExecQuality ''UNKNOWN''
        = \<lparr> freezeActive = False, reason = Some exec_quality_unknown \<rparr>
   \<and> assessFreezeFromExecQuality ''GOOD'' = \<lparr> freezeActive = False, reason = None \<rparr>"
  using assessFreeze_levels [of "''BAD''"] assessFreeze_levels [of "''UNKNOWN''"]
    assessFreeze_levels [of "''GOOD''"]
  by simp

end
